theory Spec2Isabelle
  imports
    Main
    "HOL-Library.AList"
    "HOL-Library.Char_ord"
    "HOL-Library.List_Lexorder"
    "HOL-Library.Product_Lexorder"
    "HOL-Library.Multiset"
begin

section \<open>Values, documents and collections\<close>

text \<open>
  The three source files are three revisions of one Express server over two MongoDB
  collections. \<open>part_000\<close> is the full server with a readiness guard on every route;
  \<open>part_001\<close> is the same server without the guards (and with login by username);
  \<open>index.js\<close> holds only the user routes, with the code of \<open>part_001\<close>.
  Definitions that differ between the files carry the suffix \<open>_000\<close> or \<open>_001\<close>.

  A JavaScript value that travels through a request body, a document or a token payload is a
  scalar \<open>val\<close>; \<open>undefined\<close> (an absent property) is \<open>None\<close> of \<open>val option\<close>.
  Numbers are the integers (a JSON integer below \<open>10^21\<close> in magnitude); nested objects
  and arrays inside request bodies are outside the model.
\<close>

type_synonym oid = string

datatype val = VNull | VStr string | VNum int | VBool bool | VDate nat | VId oid

type_synonym fields = "(string \<times> val) list"

text \<open>A stored document: its \<open>_id\<close> (always an ObjectId here) and its other fields.\<close>

type_synonym doc = "oid \<times> fields"

type_synonym collection = "doc list"

text \<open>An exception is the message it carries (\<open>err.message\<close>).\<close>

type_synonym exn = string

subsection \<open>The ObjectId constructor of the driver\<close>

definition isHexDigit :: "char \<Rightarrow> bool" where
  "isHexDigit c = (c \<in> set ''0123456789abcdefABCDEF'')"

definition hexLower :: "char \<Rightarrow> char" where
  "hexLower c =
     (if c = CHR ''A'' then CHR ''a'' else if c = CHR ''B'' then CHR ''b''
      else if c = CHR ''C'' then CHR ''c'' else if c = CHR ''D'' then CHR ''d''
      else if c = CHR ''E'' then CHR ''e'' else if c = CHR ''F'' then CHR ''f'' else c)"

text \<open>
  \<open>new ObjectId(s)\<close> on a string: a string of 24 hexadecimal digits denotes the twelve
  bytes it spells (kept here as the lower-case spelling, which is also \<open>toString()\<close>);
  any other string makes the constructor throw.
\<close>

definition ObjectId :: "string \<Rightarrow> exn + oid" where
  "ObjectId s =
     (if length s = 24 \<and> list_all isHexDigit s then Inr (map hexLower s)
      else Inl ''input must be a 24 character hex string, 12 byte Uint8Array, or an integer'')"

subsection \<open>Collection operations\<close>

text \<open>The driver sends \<open>undefined\<close> as \<open>null\<close>, in a filter and in a document.\<close>

definition bson :: "val option \<Rightarrow> val" where
  "bson v = (case v of None \<Rightarrow> VNull | Some x \<Rightarrow> x)"

text \<open>An equality filter on one field; a \<open>null\<close> filter also matches a missing field.\<close>

definition matches :: "val option \<Rightarrow> val \<Rightarrow> bool" where
  "matches f q = (if q = VNull then f = None \<or> f = Some VNull else f = Some q)"

definition findOne :: "collection \<Rightarrow> string \<Rightarrow> val option \<Rightarrow> doc option" where
  "findOne c k q = find (\<lambda>d. matches (map_of (snd d) k) (bson q)) c"

definition findById :: "collection \<Rightarrow> oid \<Rightarrow> doc option" where
  "findById c i = find (\<lambda>d. fst d = i) c"

definition insertOne :: "collection \<Rightarrow> oid \<Rightarrow> fields \<Rightarrow> collection" where
  "insertOne c newId fs = c @ [(newId, fs)]"





section \<open>Server state and responses\<close>

text \<open>
  \<open>usersCollection\<close> and \<open>eventsCollection\<close> are module variables, \<open>undefined\<close> until the
  connection is made.
\<close>

record server =
  usersCollection :: "collection option"
  eventsCollection :: "collection option"

datatype json = JVal val | JObj "(string \<times> json) list" | JArr "json list"

record response =
  status :: nat
  body :: json

text \<open>\<open>res.status(n).json({message: m})\<close>\<close>

definition reply :: "nat \<Rightarrow> string \<Rightarrow> response" where
  "reply n m = \<lparr>status = n, body = JObj [(''message'', JVal (VStr m))]\<rparr>"

text \<open>Calling a method of a collection variable that is still \<open>undefined\<close> throws.\<close>

definition the_collection :: "collection option \<Rightarrow> exn + collection" where
  "the_collection c =
     (case c of None \<Rightarrow> Inl ''Cannot read properties of undefined'' | Some x \<Rightarrow> Inr x)"

section \<open>Event routes\<close>

subsection \<open>PATCH /api/events/join/:id\<close>




subsection \<open>PUT /api/events/:id\<close>




subsection \<open>POST /api/events\<close>

text \<open>The operand test of \<open>!x\<close>: the falsy values.\<close>

fun falsy :: "val option \<Rightarrow> bool" where
  "falsy None = True"
| "falsy (Some VNull) = True"
| "falsy (Some (VStr s)) = (s = [])"
| "falsy (Some (VNum n)) = (n = 0)"
| "falsy (Some (VBool b)) = (\<not> b)"
| "falsy (Some (VDate t)) = False"
| "falsy (Some (VId i)) = False"

definition isWhiteSpace :: "char \<Rightarrow> bool" where
  "isWhiteSpace c = (c \<in> set [CHR 0x09, CHR 0x0A, CHR 0x0B, CHR 0x0C, CHR 0x0D, CHR 0x20])"

text \<open>The value of a character as a digit; 36 for a character that is no digit in any radix.\<close>

definition digitValue :: "char \<Rightarrow> nat" where
  "digitValue c =
     (let n = (of_char c :: nat) in
      if 48 \<le> n \<and> n \<le> 57 then n - 48
      else if 97 \<le> n \<and> n \<le> 122 then n - 87
      else if 65 \<le> n \<and> n \<le> 90 then n - 55
      else 36)"

text \<open>
  \<open>parseInt(s)\<close> with no radix, on a string: leading (ASCII) white space, a sign, a
  \<open>0x\<close> prefix (then radix 16), the longest prefix of digits; \<open>None\<close> is \<open>NaN\<close>. The
  result is the exact integer (the number type rounds it beyond \<open>2^53\<close>).
\<close>

definition parseInt_string :: "string \<Rightarrow> int option" where
  "parseInt_string s =
     (let t = dropWhile isWhiteSpace s;
          sign = (if take 1 t = ''-'' then - 1 else (1 :: int));
          t1 = (if take 1 t = ''-'' \<or> take 1 t = ''+'' then drop 1 t else t);
          hex = (take 2 t1 = ''0x'' \<or> take 2 t1 = ''0X'');
          radix = (if hex then 16 else (10 :: nat));
          t2 = (if hex then drop 2 t1 else t1);
          z = takeWhile (\<lambda>c. digitValue c < radix) t2
      in if z = [] then None
         else Some (sign * int (foldl (\<lambda>a c. a * radix + digitValue c) 0 z)))"

text \<open>
  \<open>parseInt(x)\<close> on a value converts it to a string first: \<open>undefined\<close>, \<open>null\<close>, the
  booleans and a date give a word with no leading digit, an integer gives its decimal digits.
\<close>

fun parseInt :: "val option \<Rightarrow> int option" where
  "parseInt (Some (VStr s)) = parseInt_string s"
| "parseInt (Some (VNum n)) = Some n"
| "parseInt (Some (VId i)) = parseInt_string i"
| "parseInt _ = None"

text \<open>\<open>parseInt(x) || 0\<close>\<close>

definition parseInt_or_0 :: "val option \<Rightarrow> int" where
  "parseInt_or_0 x = (case parseInt x of None \<Rightarrow> 0 | Some n \<Rightarrow> n)"

text \<open>
  \<open>now\<close> is the value of \<open>new Date()\<close> and \<open>newId\<close> the \<open>_id\<close> the driver generates for
  the inserted document.
\<close>

definition create_try :: "nat \<Rightarrow> oid \<Rightarrow> fields \<Rightarrow> server \<Rightarrow> exn + response \<times> server" where
  "create_try now newId reqBody s =
     (case the_collection (eventsCollection s) of
        Inl e \<Rightarrow> Inl e
      | Inr events \<Rightarrow>
          Inr (\<lparr>status = 201,
                body = JObj [(''message'', JVal (VStr ''Event added successfully'')),
                             (''eventId'', JVal (VId newId))]\<rparr>,
               s\<lparr>eventsCollection := Some (insertOne events newId
                   [(''title'', bson (map_of reqBody ''title'')),
                    (''name'', bson (map_of reqBody ''name'')),
                    (''dateTime'', bson (map_of reqBody ''dateTime'')),
                    (''location'', bson (map_of reqBody ''location'')),
                    (''description'', bson (map_of reqBody ''description'')),
                    (''attendeeCount'', VNum (parseInt_or_0 (map_of reqBody ''attendeeCount''))),
                    (''email'', bson (map_of reqBody ''email'')),
                    (''createdAt'', VDate now)])\<rparr>))"

definition post_events_001 :: "nat \<Rightarrow> oid \<Rightarrow> fields \<Rightarrow> server \<Rightarrow> response \<times> server" where
  "post_events_001 now newId reqBody s =
     (if falsy (map_of reqBody ''title'') \<or> falsy (map_of reqBody ''name'')
         \<or> falsy (map_of reqBody ''dateTime'') \<or> falsy (map_of reqBody ''location'')
         \<or> falsy (map_of reqBody ''description'') \<or> falsy (map_of reqBody ''email'')
      then (reply 400 ''All fields including email are required'', s)
      else (case create_try now newId reqBody s of
              Inl err \<Rightarrow> (reply 500 ''Internal server error'', s)
            | Inr r \<Rightarrow> r))"

definition post_events_000 :: "nat \<Rightarrow> oid \<Rightarrow> fields \<Rightarrow> server \<Rightarrow> response \<times> server" where
  "post_events_000 now newId reqBody s =
     (if eventsCollection s = None then (reply 503 ''Server not ready'', s)
      else post_events_001 now newId reqBody s)"

subsection \<open>GET /api/events\<close>






section \<open>User routes\<close>

subsection \<open>The hashing and token libraries\<close>

text \<open>
  \<open>bcrypt\<close> and \<open>jsonwebtoken\<close> are used through four operations, taken here as
  parameters: \<open>bcrypt.hash(p, 10)\<close> and \<open>bcrypt.compare(p, h)\<close> on strings,
  \<open>jwt.sign(payload, JWT_SECRET, {expiresIn: '7d'})\<close>, and \<open>jwt.verify(token, JWT_SECRET)\<close>,
  which gives the payload of a token that is well formed, signed with the secret and not
  expired, and throws (\<open>None\<close>) on any other token.
\<close>

record lib =
  bcrypt_hash :: "string \<Rightarrow> string"
  bcrypt_compare :: "string \<Rightarrow> string \<Rightarrow> bool"
  jwt_sign :: "fields \<Rightarrow> string"
  jwt_verify :: "string \<Rightarrow> fields option"

text \<open>\<open>bcrypt.hash\<close> and \<open>bcrypt.compare\<close> reject arguments that are missing or no strings.\<close>

fun hash :: "lib \<Rightarrow> val option \<Rightarrow> exn + string" where
  "hash l (Some (VStr p)) = Inr (bcrypt_hash l p)"
| "hash l None = Inl ''data and salt arguments required''"
| "hash l (Some VNull) = Inl ''data and salt arguments required''"
| "hash l (Some _) =
     Inl ''data must be a string or Buffer and salt must either be a salt string or a number of rounds''"

fun compare :: "lib \<Rightarrow> val option \<Rightarrow> val option \<Rightarrow> exn + bool" where
  "compare l None h = Inl ''data and hash arguments required''"
| "compare l (Some VNull) h = Inl ''data and hash arguments required''"
| "compare l p None = Inl ''data and hash arguments required''"
| "compare l p (Some VNull) = Inl ''data and hash arguments required''"
| "compare l (Some (VStr p)) (Some (VStr h)) = Inr (bcrypt_compare l p h)"
| "compare l p h = Inl ''data and hash must be strings''"

text \<open>
  An object literal as it is serialised (\<open>res.json\<close>, the token payload): a property whose
  value is \<open>undefined\<close> is left out.
\<close>

definition defined :: "(string \<times> 'a option) list \<Rightarrow> (string \<times> 'a) list" where
  "defined kvs = List.map_filter (\<lambda>(k, v). map_option (Pair k) v) kvs"

definition jobj :: "(string \<times> json option) list \<Rightarrow> json" where
  "jobj kvs = JObj (defined kvs)"

text \<open>The property names of a response body, and the value of one property.\<close>

fun keys :: "json \<Rightarrow> string list" where
  "keys (JObj kvs) = map fst kvs"
| "keys j = []"


subsection \<open>POST /signup\<close>

definition signup_try_000 ::
    "lib \<Rightarrow> nat \<Rightarrow> oid \<Rightarrow> fields \<Rightarrow> server \<Rightarrow> exn + response \<times> server" where
  "signup_try_000 l now newId reqBody s =
     (let username = map_of reqBody ''username''; email = map_of reqBody ''email'';
          photoUrl = map_of reqBody ''photoUrl''; password = map_of reqBody ''password''
      in case the_collection (usersCollection s) of
        Inl e \<Rightarrow> Inl e
      | Inr users \<Rightarrow>
          (case findOne users ''email'' email of
             Some existingUser \<Rightarrow> Inr (reply 409 ''Email already in use'', s)
           | None \<Rightarrow>
               (case hash l password of
                  Inl e \<Rightarrow> Inl e
                | Inr hashedPassword \<Rightarrow>
                    (let users' = insertOne users newId
                           [(''username'', bson username), (''email'', bson email),
                            (''photoUrl'', bson photoUrl), (''password'', VStr hashedPassword),
                            (''createdAt'', VDate now)];
                         token = jwt_sign l
                           (defined [(''userId'', Some (VStr newId)), (''email'', email)])
                     in Inr (\<lparr>status = 201,
                               body = jobj
                                 [(''message'', Some (JVal (VStr ''Signup successful''))),
                                  (''token'', Some (JVal (VStr token))),
                                  (''user'', Some (jobj
                                     [(''id'', Some (JVal (VId newId))),
                                      (''username'', map_option JVal username),
                                      (''email'', map_option JVal email),
                                      (''photoUrl'', map_option JVal photoUrl)]))]\<rparr>,
                             s\<lparr>usersCollection := Some users'\<rparr>)))))"

definition post_signup_000 :: "lib \<Rightarrow> nat \<Rightarrow> oid \<Rightarrow> fields \<Rightarrow> server \<Rightarrow> response \<times> server" where
  "post_signup_000 l now newId reqBody s =
     (if usersCollection s = None then (reply 503 ''Server not ready'', s)
      else (case signup_try_000 l now newId reqBody s of
              Inl err \<Rightarrow> (reply 500 ''Internal server error'', s)
            | Inr r \<Rightarrow> r))"

text \<open>\<open>part_001\<close> and \<open>index.js\<close>: no guard, no token.\<close>

definition signup_try_001 ::
    "lib \<Rightarrow> nat \<Rightarrow> oid \<Rightarrow> fields \<Rightarrow> server \<Rightarrow> exn + response \<times> server" where
  "signup_try_001 l now newId reqBody s =
     (let username = map_of reqBody ''username''; email = map_of reqBody ''email'';
          photoUrl = map_of reqBody ''photoUrl''; password = map_of reqBody ''password''
      in case the_collection (usersCollection s) of
        Inl e \<Rightarrow> Inl e
      | Inr users \<Rightarrow>
          (case findOne users ''email'' email of
             Some existingUser \<Rightarrow> Inr (reply 409 ''Email already in use'', s)
           | None \<Rightarrow>
               (case hash l password of
                  Inl e \<Rightarrow> Inl e
                | Inr hashedPassword \<Rightarrow>
                    (let users' = insertOne users newId
                           [(''username'', bson username), (''email'', bson email),
                            (''photoUrl'', bson photoUrl), (''password'', VStr hashedPassword),
                            (''createdAt'', VDate now)]
                     in Inr (\<lparr>status = 201,
                               body = jobj
                                 [(''message'', Some (JVal (VStr ''User registered successfully''))),
                                  (''userId'', Some (JVal (VId newId)))]\<rparr>,
                             s\<lparr>usersCollection := Some users'\<rparr>)))))"

definition post_signup_001 :: "lib \<Rightarrow> nat \<Rightarrow> oid \<Rightarrow> fields \<Rightarrow> server \<Rightarrow> response \<times> server" where
  "post_signup_001 l now newId reqBody s =
     (case signup_try_001 l now newId reqBody s of
        Inl err \<Rightarrow> (reply 500 ''Internal server error'', s)
      | Inr r \<Rightarrow> r)"

text \<open>The user records that the lookup \<open>findOne({email})\<close> of the signup route can match.\<close>

definition records_for_email :: "server \<Rightarrow> val option \<Rightarrow> doc list" where
  "records_for_email s email =
     (case usersCollection s of
        None \<Rightarrow> []
      | Some users \<Rightarrow> filter (\<lambda>d. matches (map_of (snd d) ''email'') (bson email)) users)"

subsection \<open>POST /login\<close>

text \<open>\<open>x || null\<close>\<close>

definition or_null :: "val option \<Rightarrow> val" where
  "or_null x = (if falsy x then VNull else bson x)"

text \<open>\<open>part_000\<close>: the account is looked up by email.\<close>

definition login_try_000 :: "lib \<Rightarrow> fields \<Rightarrow> server \<Rightarrow> exn + response" where
  "login_try_000 l reqBody s =
     (let email = map_of reqBody ''email''; password = map_of reqBody ''password''
      in case the_collection (usersCollection s) of
        Inl e \<Rightarrow> Inl e
      | Inr users \<Rightarrow>
          (case findOne users ''email'' email of
             None \<Rightarrow> Inr (reply 401 ''User not found'')
           | Some user \<Rightarrow>
               (case compare l password (map_of (snd user) ''password'') of
                  Inl e \<Rightarrow> Inl e
                | Inr isMatch \<Rightarrow>
                    if \<not> isMatch then Inr (reply 401 ''Invalid password'')
                    else
                      (let token = jwt_sign l
                             (defined [(''userId'', Some (VStr (fst user))),
                                       (''email'', map_of (snd user) ''email'')])
                       in Inr \<lparr>status = 200,
                                body = jobj
                                  [(''message'', Some (JVal (VStr ''Login successful''))),
                                   (''token'', Some (JVal (VStr token))),
                                   (''user'', Some (jobj
                                      [(''id'', Some (JVal (VId (fst user)))),
                                       (''username'', map_option JVal (map_of (snd user) ''username'')),
                                       (''email'', map_option JVal (map_of (snd user) ''email'')),
                                       (''photoUrl'',
                                          Some (JVal (or_null (map_of (snd user) ''photoUrl''))))]))]\<rparr>))))"

definition post_login_000 :: "lib \<Rightarrow> fields \<Rightarrow> server \<Rightarrow> response" where
  "post_login_000 l reqBody s =
     (if usersCollection s = None then reply 503 ''Try again or reload''
      else (case login_try_000 l reqBody s of
              Inl err \<Rightarrow> \<lparr>status = 500,
                           body = JObj [(''message'', JVal (VStr ''Internal server error'')),
                                        (''error'', JVal (VStr err))]\<rparr>
            | Inr r \<Rightarrow> r))"

text \<open>\<open>part_001\<close> and \<open>index.js\<close>: the account is looked up by username.\<close>

definition login_try_001 :: "lib \<Rightarrow> fields \<Rightarrow> server \<Rightarrow> exn + response" where
  "login_try_001 l reqBody s =
     (let username = map_of reqBody ''username''; password = map_of reqBody ''password''
      in case the_collection (usersCollection s) of
        Inl e \<Rightarrow> Inl e
      | Inr users \<Rightarrow>
          (case findOne users ''username'' username of
             None \<Rightarrow> Inr (reply 401 ''User not found'')
           | Some user \<Rightarrow>
               (case compare l password (map_of (snd user) ''password'') of
                  Inl e \<Rightarrow> Inl e
                | Inr isMatch \<Rightarrow>
                    if \<not> isMatch then Inr (reply 401 ''Invalid password'')
                    else
                      (let token = jwt_sign l
                             (defined [(''userId'', Some (VStr (fst user))),
                                       (''username'', map_of (snd user) ''username'')])
                       in Inr \<lparr>status = 200,
                                body = jobj
                                  [(''message'', Some (JVal (VStr ''Login successful''))),
                                   (''token'', Some (JVal (VStr token))),
                                   (''user'', Some (jobj
                                      [(''id'', Some (JVal (VId (fst user)))),
                                       (''username'', map_option JVal (map_of (snd user) ''username'')),
                                       (''email'', map_option JVal (map_of (snd user) ''email'')),
                                       (''photoUrl'',
                                          map_option JVal (map_of (snd user) ''photoUrl''))]))]\<rparr>))))"

definition post_login_001 :: "lib \<Rightarrow> fields \<Rightarrow> server \<Rightarrow> response" where
  "post_login_001 l reqBody s =
     (case login_try_001 l reqBody s of
        Inl err \<Rightarrow> reply 500 ''Internal server error''
      | Inr r \<Rightarrow> r)"

subsection \<open>The token middleware and GET /api/user/me\<close>

text \<open>\<open>s.split(c)\<close>\<close>

fun split :: "char \<Rightarrow> string \<Rightarrow> string list" where
  "split c [] = [[]]"
| "split c (x # xs) =
     (if x = c then [] # split c xs
      else (case split c xs of [] \<Rightarrow> [[x]] | p # ps \<Rightarrow> (x # p) # ps))"

text \<open>\<open>authHeader.split(" ")[1]\<close>\<close>

definition second_part :: "string \<Rightarrow> string option" where
  "second_part h = (case split CHR '' '' h of a # b # r \<Rightarrow> Some b | _ \<Rightarrow> None)"

text \<open>
  \<open>new ObjectId(x)\<close> on the \<open>userId\<close> of a token payload. A string is parsed as above; with
  no argument, \<open>null\<close> or a number the driver generates a new id, which no stored document
  has (\<open>Inr None\<close>); an ObjectId is kept; anything else throws.
\<close>

fun ObjectId_of :: "val option \<Rightarrow> exn + oid option" where
  "ObjectId_of (Some (VStr x)) = (case ObjectId x of Inl e \<Rightarrow> Inl e | Inr i \<Rightarrow> Inr (Some i))"
| "ObjectId_of (Some (VId i)) = Inr (Some i)"
| "ObjectId_of None = Inr None"
| "ObjectId_of (Some VNull) = Inr None"
| "ObjectId_of (Some (VNum n)) = Inr None"
| "ObjectId_of (Some _) = Inl ''Argument passed in does not match the accepted types''"

text \<open>The \<open>try\<close> block of the middleware; \<open>Inr (Inr u)\<close> is \<open>req.user = u; next()\<close>.\<close>

definition authenticate_try :: "lib \<Rightarrow> string \<Rightarrow> server \<Rightarrow> exn + (response + json)" where
  "authenticate_try l token s =
     (case jwt_verify l token of
        None \<Rightarrow> Inl ''invalid token''
      | Some decoded \<Rightarrow>
          (case the_collection (usersCollection s) of
             Inl e \<Rightarrow> Inl e
           | Inr users \<Rightarrow>
               (case ObjectId_of (map_of decoded ''userId'') of
                  Inl e \<Rightarrow> Inl e
                | Inr i \<Rightarrow>
                    (case (case i of None \<Rightarrow> None | Some j \<Rightarrow> findById users j) of
                       None \<Rightarrow> Inr (Inl (reply 401 ''User not found''))
                     | Some user \<Rightarrow>
                         Inr (Inr (jobj
                           [(''id'', Some (JVal (VId (fst user)))),
                            (''username'', map_option JVal (map_of (snd user) ''username'')),
                            (''email'', map_option JVal (map_of (snd user) ''email'')),
                            (''photoUrl'', map_option JVal (map_of (snd user) ''photoUrl''))]))))))"

definition authenticateJWT :: "lib \<Rightarrow> string option \<Rightarrow> server \<Rightarrow> response + json" where
  "authenticateJWT l authHeader s =
     (case authHeader of
        None \<Rightarrow> Inl (reply 401 ''Authorization header missing'')
      | Some h \<Rightarrow>
          if h = [] then Inl (reply 401 ''Authorization header missing'')
          else (case second_part h of
                  None \<Rightarrow> Inl (reply 401 ''Token missing'')
                | Some token \<Rightarrow>
                    if token = [] then Inl (reply 401 ''Token missing'')
                    else (case authenticate_try l token s of
                            Inl err \<Rightarrow> Inl (reply 403 ''Invalid or expired token'')
                          | Inr r \<Rightarrow> r)))"

text \<open>\<open>app.get('/api/user/me', authenticateJWT, (req, res) => res.json(req.user))\<close>\<close>

definition get_user_me :: "lib \<Rightarrow> string option \<Rightarrow> server \<Rightarrow> response" where
  "get_user_me l authHeader s =
     (case authenticateJWT l authHeader s of
        Inl r \<Rightarrow> r
      | Inr user \<Rightarrow> \<lparr>status = 200, body = user\<rparr>)"

section \<open>Sample data\<close>

text \<open>
  A concrete state and a concrete instance of the library operations, on which the routes
  are evaluated below. The sample hash of \<open>p\<close> is \<open>p\<close> behind a marker and a sample token
  is the \<open>userId\<close> behind a marker; no theorem about all libraries depends on them.
\<close>

definition sample_lib :: lib where
  "sample_lib =
     \<lparr>bcrypt_hash = (\<lambda>p. ''$2b$'' @ p),
      bcrypt_compare = (\<lambda>p h. h = ''$2b$'' @ p),
      jwt_sign = (\<lambda>payload. ''jwt.'' @ (case map_of payload ''userId'' of
                                             Some (VStr u) \<Rightarrow> u | _ \<Rightarrow> [])),
      jwt_verify = (\<lambda>t. if take 4 t = ''jwt.'' then Some [(''userId'', VStr (drop 4 t))]
                          else None)\<rparr>"

definition sample_users :: collection where
  "sample_users =
     [(''64b7f3a2c1d4e5f6012345aa'',
       [(''username'', VStr ''ada''), (''email'', VStr ''ada@example.org''),
        (''photoUrl'', VNull), (''password'', VStr ''$2b$secret''),
        (''createdAt'', VDate 500)])]"

definition sample_events :: collection where
  "sample_events =
     [(''64b7f3a2c1d4e5f601234567'',
       [(''title'', VStr ''Meetup''), (''name'', VStr ''Ada''),
        (''dateTime'', VStr ''2025-07-01T18:00''), (''location'', VStr ''Hall''),
        (''description'', VStr ''Talks''), (''attendeeCount'', VNum 4),
        (''email'', VStr ''ada@example.org''), (''createdAt'', VDate 1000)]),
      (''64b7f3a2c1d4e5f601234568'',
       [(''title'', VStr ''Picnic''), (''name'', VStr ''Bob''),
        (''dateTime'', VStr ''2025-08-01T12:00''), (''location'', VStr ''Park''),
        (''description'', VStr ''Food''), (''attendeeCount'', VNum 0),
        (''email'', VStr ''bob@example.org''), (''createdAt'', VDate 2000)])]"

definition sample_server :: server where
  "sample_server = \<lparr>usersCollection = Some sample_users, eventsCollection = Some sample_events\<rparr>"

section \<open>Facts about the collection operations\<close>





lemma findById_fst: "findById c i = Some d \<Longrightarrow> fst d = i"
  by (auto simp: findById_def dest: find_Some_iff[THEN iffD1])



section \<open>Joining an event\<close>









section \<open>Updating an event\<close>











section \<open>Creating an event\<close>

lemma falsy_absent_or_empty:
  "x = None \<or> x = Some (VStr []) \<Longrightarrow> falsy x"
  by auto

lemma post_events_001_rejects:
  assumes "k \<in> set [''title'', ''name'', ''dateTime'', ''location'', ''description'', ''email'']"
    and "falsy (map_of reqBody k)"
  shows "post_events_001 now newId reqBody s =
           (reply 400 ''All fields including email are required'', s)"
  using assms by (auto simp: post_events_001_def)



text \<open>
  Claim C6. When one of the required fields \<open>title\<close>, \<open>name\<close>, \<open>dateTime\<close>, \<open>location\<close>,
  \<open>description\<close>, \<open>email\<close> is absent from the request or is the empty string, event creation
  answers 400 and inserts nothing: in \<open>part_001\<close> in every state, in \<open>part_000\<close> whenever the
  events collection is connected (before that its guard answers 503); in no state does such
  a request change the store.
\<close>

theorem create_requires_fields:
  assumes "k \<in> set [''title'', ''name'', ''dateTime'', ''location'', ''description'', ''email'']"
    and "map_of reqBody k = None \<or> map_of reqBody k = Some (VStr [])"
  shows "post_events_001 now newId reqBody s =
           (reply 400 ''All fields including email are required'', s)
       \<and> (eventsCollection s \<noteq> None \<longrightarrow>
            post_events_000 now newId reqBody s =
              (reply 400 ''All fields including email are required'', s))
       \<and> snd (post_events_000 now newId reqBody s) = s"
proof -
  from assms(2) have "falsy (map_of reqBody k)" by (rule falsy_absent_or_empty)
  with assms(1) have "post_events_001 now newId reqBody s =
      (reply 400 ''All fields including email are required'', s)"
    by (rule post_events_001_rejects)
  then show ?thesis by (simp add: post_events_000_def)
qed

text \<open>The theorem at the sample state, for a request with no \<open>email\<close>.\<close>

theorem create_requires_fields_witness:
  "''email'' \<in> set [''title'', ''name'', ''dateTime'', ''location'', ''description'', ''email'']
   \<and> map_of [(''title'', VStr ''T''), (''name'', VStr ''N''), (''dateTime'', VStr ''D''),
              (''location'', VStr ''L''), (''description'', VStr ''X'')] ''email'' = None
   \<and> eventsCollection sample_server = Some sample_events
   \<and> post_events_000 7 ''64b7f3a2c1d4e5f601234570''
        [(''title'', VStr ''T''), (''name'', VStr ''N''), (''dateTime'', VStr ''D''),
         (''location'', VStr ''L''), (''description'', VStr ''X'')] sample_server
       = (reply 400 ''All fields including email are required'', sample_server)"
  using create_requires_fields [of "''email''"
      "[(''title'', VStr ''T''), (''name'', VStr ''N''), (''dateTime'', VStr ''D''),
        (''location'', VStr ''L''), (''description'', VStr ''X'')]"
      7 "''64b7f3a2c1d4e5f601234570''" sample_server]
  by (simp add: sample_server_def)




section \<open>Listing the events\<close>









section \<open>Logging in\<close>

lemma post_login_000_unfold:
  assumes "usersCollection s = Some users"
  shows "post_login_000 l reqBody s =
     (case findOne users ''email'' (map_of reqBody ''email'') of
        None \<Rightarrow> reply 401 ''User not found''
      | Some user \<Rightarrow>
          (case compare l (map_of reqBody ''password'') (map_of (snd user) ''password'') of
             Inl err \<Rightarrow> \<lparr>status = 500,
                          body = JObj [(''message'', JVal (VStr ''Internal server error'')),
                                       (''error'', JVal (VStr err))]\<rparr>
           | Inr isMatch \<Rightarrow>
               if \<not> isMatch then reply 401 ''Invalid password''
               else \<lparr>status = 200,
                     body = JObj
                       [(''message'', JVal (VStr ''Login successful'')),
                        (''token'', JVal (VStr (jwt_sign l
                             (defined [(''userId'', Some (VStr (fst user))),
                                       (''email'', map_of (snd user) ''email'')])))),
                        (''user'', jobj
                           [(''id'', Some (JVal (VId (fst user)))),
                            (''username'', map_option JVal (map_of (snd user) ''username'')),
                            (''email'', map_option JVal (map_of (snd user) ''email'')),
                            (''photoUrl'',
                               Some (JVal (or_null (map_of (snd user) ''photoUrl''))))])]\<rparr>))"
  using assms
  by (simp add: post_login_000_def login_try_000_def the_collection_def jobj_def defined_def
      split: option.splits sum.splits)

lemma post_login_001_unfold:
  assumes "usersCollection s = Some users"
  shows "post_login_001 l reqBody s =
     (case findOne users ''username'' (map_of reqBody ''username'') of
        None \<Rightarrow> reply 401 ''User not found''
      | Some user \<Rightarrow>
          (case compare l (map_of reqBody ''password'') (map_of (snd user) ''password'') of
             Inl err \<Rightarrow> reply 500 ''Internal server error''
           | Inr isMatch \<Rightarrow>
               if \<not> isMatch then reply 401 ''Invalid password''
               else \<lparr>status = 200,
                     body = JObj
                       [(''message'', JVal (VStr ''Login successful'')),
                        (''token'', JVal (VStr (jwt_sign l
                             (defined [(''userId'', Some (VStr (fst user))),
                                       (''username'', map_of (snd user) ''username'')])))),
                        (''user'', jobj
                           [(''id'', Some (JVal (VId (fst user)))),
                            (''username'', map_option JVal (map_of (snd user) ''username'')),
                            (''email'', map_option JVal (map_of (snd user) ''email'')),
                            (''photoUrl'', map_option JVal (map_of (snd user) ''photoUrl''))])]\<rparr>))"
  using assms
  by (simp add: post_login_001_def login_try_001_def the_collection_def jobj_def defined_def
      split: option.splits sum.splits)

lemma keys_jobj_subset: "set (keys (jobj kvs)) \<subseteq> set (map fst kvs)"
  by (induction kvs) (auto simp: jobj_def defined_def split: option.splits)






lemma post_login_000_wrong:
  assumes "usersCollection s = Some users"
    and "findOne users ''email'' (map_of reqBody ''email'') = Some user"
    and "map_of reqBody ''password'' = Some (VStr p)"
    and "map_of (snd user) ''password'' = Some (VStr h)"
    and "\<not> bcrypt_compare l p h"
  shows "post_login_000 l reqBody s = reply 401 ''Invalid password''"
  using assms(2-5) by (simp add: post_login_000_unfold[OF assms(1)])

lemma post_login_001_wrong:
  assumes "usersCollection s = Some users"
    and "findOne users ''username'' (map_of reqBody ''username'') = Some user"
    and "map_of reqBody ''password'' = Some (VStr p)"
    and "map_of (snd user) ''password'' = Some (VStr h)"
    and "\<not> bcrypt_compare l p h"
  shows "post_login_001 l reqBody s = reply 401 ''Invalid password''"
  using assms(2-5) by (simp add: post_login_001_unfold[OF assms(1)])

lemma post_login_000_unknown:
  assumes "usersCollection s = Some users"
    and "findOne users ''email'' (map_of reqBody ''email'') = None"
  shows "post_login_000 l reqBody s = reply 401 ''User not found''"
  using assms(2) by (simp add: post_login_000_unfold[OF assms(1)])

lemma post_login_001_unknown:
  assumes "usersCollection s = Some users"
    and "findOne users ''username'' (map_of reqBody ''username'') = None"
  shows "post_login_001 l reqBody s = reply 401 ''User not found''"
  using assms(2) by (simp add: post_login_001_unfold[OF assms(1)])



lemmas run_login = post_login_000_def login_try_000_def post_login_001_def login_try_001_def
  the_collection_def findOne_def matches_def bson_def jobj_def defined_def
  or_null_def reply_def
  sample_lib_def sample_server_def sample_users_def

text \<open>
  Claim C2, as the code has it. With the users collection connected, in both revisions of the
  login route (lookup by email in \<open>part_000\<close>, by username in \<open>part_001\<close> and \<open>index.js\<close>):
  a login for which no account is found is answered 401 with the message ``User not found'';
  a login for an existing account whose password does not match the stored hash is answered
  401 with the message ``Invalid password''. Both answers have status 401, and their bodies
  differ, so the two failures are told apart by the message.
\<close>

theorem login_failures:
  assumes "usersCollection s = Some users"
  shows "(findOne users ''email'' (map_of reqBody ''email'') = None \<longrightarrow>
            post_login_000 l reqBody s = reply 401 ''User not found'')
       \<and> (findOne users ''email'' (map_of reqBody ''email'') = Some user
            \<and> map_of reqBody ''password'' = Some (VStr p)
            \<and> map_of (snd user) ''password'' = Some (VStr h) \<and> \<not> bcrypt_compare l p h \<longrightarrow>
            post_login_000 l reqBody s = reply 401 ''Invalid password'')
       \<and> (findOne users ''username'' (map_of reqBody ''username'') = None \<longrightarrow>
            post_login_001 l reqBody s = reply 401 ''User not found'')
       \<and> (findOne users ''username'' (map_of reqBody ''username'') = Some user
            \<and> map_of reqBody ''password'' = Some (VStr p)
            \<and> map_of (snd user) ''password'' = Some (VStr h) \<and> \<not> bcrypt_compare l p h \<longrightarrow>
            post_login_001 l reqBody s = reply 401 ''Invalid password'')
       \<and> status (reply 401 ''User not found'') = 401
       \<and> status (reply 401 ''Invalid password'') = 401
       \<and> body (reply 401 ''User not found'') \<noteq> body (reply 401 ''Invalid password'')"
  using post_login_000_unknown[OF assms, of reqBody l]
    post_login_000_wrong[OF assms, of reqBody user p h l]
    post_login_001_unknown[OF assms, of reqBody l]
    post_login_001_wrong[OF assms, of reqBody user p h l]
  by (simp add: reply_def)

text \<open>
  The theorem at the sample state, whose only account is \<open>ada\<close> with password \<open>secret\<close>.
\<close>

theorem login_failures_witness:
  "usersCollection sample_server = Some sample_users
   \<and> findOne sample_users ''email'' (Some (VStr ''eve@example.org'')) = None
   \<and> findOne sample_users ''email'' (Some (VStr ''ada@example.org'')) = Some (hd sample_users)
   \<and> \<not> bcrypt_compare sample_lib ''wrong'' ''$2b$secret''
   \<and> post_login_000 sample_lib
        [(''email'', VStr ''ada@example.org''), (''password'', VStr ''wrong'')] sample_server
       = reply 401 ''Invalid password''"
  using login_failures [where s = sample_server and users = sample_users
      and reqBody = "[(''email'', VStr ''ada@example.org''), (''password'', VStr ''wrong'')]"
      and user = "hd sample_users" and p = "''wrong''" and h = "''$2b$secret''"
      and l = sample_lib]
  by (simp add: run_login)

text \<open>
  Claim C2 as stated fails: against the sample state, a login for an unknown account and a
  login for \<open>ada\<close> with a wrong password are both answered 401, with different messages.
\<close>

theorem login_messages_differ_counterexample:
  "post_login_000 sample_lib
       [(''email'', VStr ''eve@example.org''), (''password'', VStr ''secret'')] sample_server
     = reply 401 ''User not found''
   \<and> post_login_000 sample_lib
       [(''email'', VStr ''ada@example.org''), (''password'', VStr ''wrong'')] sample_server
     = reply 401 ''Invalid password''
   \<and> body (post_login_000 sample_lib
       [(''email'', VStr ''eve@example.org''), (''password'', VStr ''secret'')] sample_server)
     \<noteq> body (post_login_000 sample_lib
       [(''email'', VStr ''ada@example.org''), (''password'', VStr ''wrong'')] sample_server)
   \<and> post_login_001 sample_lib
       [(''username'', VStr ''eve''), (''password'', VStr ''secret'')] sample_server
     = reply 401 ''User not found''
   \<and> post_login_001 sample_lib
       [(''username'', VStr ''ada''), (''password'', VStr ''wrong'')] sample_server
     = reply 401 ''Invalid password''
   \<and> body (post_login_001 sample_lib
       [(''username'', VStr ''eve''), (''password'', VStr ''secret'')] sample_server)
     \<noteq> body (post_login_001 sample_lib
       [(''username'', VStr ''ada''), (''password'', VStr ''wrong'')] sample_server)"
  by (simp add: run_login)



section \<open>The token middleware\<close>

lemma second_part_nonempty: "second_part h = Some token \<Longrightarrow> h \<noteq> []"
  by (auto simp: second_part_def)

lemma authenticateJWT_token:
  assumes "second_part h = Some token" "token \<noteq> []"
  shows "authenticateJWT l (Some h) s =
           (case authenticate_try l token s of
              Inl err \<Rightarrow> Inl (reply 403 ''Invalid or expired token'')
            | Inr r \<Rightarrow> r)"
  using assms second_part_nonempty[OF assms(1)] by (simp add: authenticateJWT_def)

lemma authenticate_bad_token:
  assumes "second_part h = Some token" "token \<noteq> []" "jwt_verify l token = None"
  shows "authenticateJWT l (Some h) s = Inl (reply 403 ''Invalid or expired token'')"
  using assms(3) by (simp add: authenticateJWT_token[OF assms(1,2)] authenticate_try_def)


lemma authenticate_user:
  assumes "second_part h = Some token" "token \<noteq> []" "jwt_verify l token = Some decoded"
    and "usersCollection s = Some users"
    and "ObjectId_of (map_of decoded ''userId'') = Inr (Some j)"
    and "findById users j = Some user"
  shows "authenticateJWT l (Some h) s = Inr (jobj
           [(''id'', Some (JVal (VId j))),
            (''username'', map_option JVal (map_of (snd user) ''username'')),
            (''email'', map_option JVal (map_of (snd user) ''email'')),
            (''photoUrl'', map_option JVal (map_of (snd user) ''photoUrl''))])"
  using assms(3-6) findById_fst[OF assms(6)]
  by (simp add: authenticateJWT_token[OF assms(1,2)] authenticate_try_def the_collection_def)


lemma jobj_all_defined:
  "jobj [(a, Some x), (b, Some y), (c, Some z), (d, Some w)] = JObj [(a, x), (b, y), (c, z), (d, w)]"
  by (simp add: jobj_def defined_def)

lemmas run_auth = get_user_me_def authenticateJWT_def authenticate_try_def second_part_def
  the_collection_def ObjectId_def isHexDigit_def hexLower_def findById_def jobj_def defined_def
  reply_def sample_lib_def sample_server_def sample_users_def

text \<open>
  Claim C3. \<open>GET /api/user/me\<close> with no Authorization header is answered 401. With a header
  that carries a token which \<open>jwt.verify\<close> rejects (malformed, wrongly signed or expired) it
  is answered 403, so the two failures differ in status. With a token that verifies and
  names an existing user, the answer is 200 and its body is the object of \<open>id\<close> (the user's
  \<open>_id\<close>) and of the user's \<open>username\<close>, \<open>email\<close> and \<open>photoUrl\<close>: it has no other property, in
  particular no \<open>password\<close>, and when the user record has those three fields (as every record
  written by signup has) its properties are exactly these four.
\<close>

theorem user_me_outcomes:
  "get_user_me l None s = reply 401 ''Authorization header missing''
   \<and> (second_part h = Some token \<and> token \<noteq> [] \<and> jwt_verify l token = None \<longrightarrow>
        get_user_me l (Some h) s = reply 403 ''Invalid or expired token'')
   \<and> status (reply 401 ''Authorization header missing'')
        \<noteq> status (reply 403 ''Invalid or expired token'')
   \<and> (second_part h = Some token \<and> token \<noteq> [] \<and> jwt_verify l token = Some decoded
        \<and> usersCollection s = Some users
        \<and> ObjectId_of (map_of decoded ''userId'') = Inr (Some j)
        \<and> findById users j = Some user \<longrightarrow>
        status (get_user_me l (Some h) s) = 200
        \<and> body (get_user_me l (Some h) s) = jobj
             [(''id'', Some (JVal (VId j))),
              (''username'', map_option JVal (map_of (snd user) ''username'')),
              (''email'', map_option JVal (map_of (snd user) ''email'')),
              (''photoUrl'', map_option JVal (map_of (snd user) ''photoUrl''))]
        \<and> set (keys (body (get_user_me l (Some h) s)))
             \<subseteq> {''id'', ''username'', ''email'', ''photoUrl''}
        \<and> ''password'' \<notin> set (keys (body (get_user_me l (Some h) s)))
        \<and> (map_of (snd user) ''username'' = Some vu \<and> map_of (snd user) ''email'' = Some ve
             \<and> map_of (snd user) ''photoUrl'' = Some vp \<longrightarrow>
             body (get_user_me l (Some h) s) =
               JObj [(''id'', JVal (VId j)), (''username'', JVal vu),
                     (''email'', JVal ve), (''photoUrl'', JVal vp)]))"
proof -
  have none: "get_user_me l None s = reply 401 ''Authorization header missing''"
    by (simp add: get_user_me_def authenticateJWT_def)
  have bad: "get_user_me l (Some h) s = reply 403 ''Invalid or expired token''"
    if "second_part h = Some token" "token \<noteq> []" "jwt_verify l token = None"
    using authenticate_bad_token[OF that, of s] by (simp add: get_user_me_def)
  have good: "status (get_user_me l (Some h) s) = 200
        \<and> body (get_user_me l (Some h) s) = jobj
             [(''id'', Some (JVal (VId j))),
              (''username'', map_option JVal (map_of (snd user) ''username'')),
              (''email'', map_option JVal (map_of (snd user) ''email'')),
              (''photoUrl'', map_option JVal (map_of (snd user) ''photoUrl''))]
        \<and> set (keys (body (get_user_me l (Some h) s)))
             \<subseteq> {''id'', ''username'', ''email'', ''photoUrl''}
        \<and> ''password'' \<notin> set (keys (body (get_user_me l (Some h) s)))
        \<and> (map_of (snd user) ''username'' = Some vu \<and> map_of (snd user) ''email'' = Some ve
             \<and> map_of (snd user) ''photoUrl'' = Some vp \<longrightarrow>
             body (get_user_me l (Some h) s) =
               JObj [(''id'', JVal (VId j)), (''username'', JVal vu),
                     (''email'', JVal ve), (''photoUrl'', JVal vp)])"
    if t: "second_part h = Some token" "token \<noteq> []" "jwt_verify l token = Some decoded"
      "usersCollection s = Some users"
      "ObjectId_of (map_of decoded ''userId'') = Inr (Some j)"
      "findById users j = Some user"
  proof -
    let ?kvs = "[(''id'', Some (JVal (VId j))),
              (''username'', map_option JVal (map_of (snd user) ''username'')),
              (''email'', map_option JVal (map_of (snd user) ''email'')),
              (''photoUrl'', map_option JVal (map_of (snd user) ''photoUrl''))]"
    have r: "get_user_me l (Some h) s = \<lparr>status = 200, body = jobj ?kvs\<rparr>"
      using authenticate_user[OF t] by (simp add: get_user_me_def)
    have sub: "set (keys (jobj ?kvs)) \<subseteq> {''id'', ''username'', ''email'', ''photoUrl''}"
      using keys_jobj_subset[of ?kvs] by simp
    then have nopw: "''password'' \<notin> set (keys (jobj ?kvs))" by auto
    from r sub nopw show ?thesis by (auto simp: jobj_all_defined)
  qed
  have differ: "status (reply 401 ''Authorization header missing'')
        \<noteq> status (reply 403 ''Invalid or expired token'')"
    by (simp add: reply_def)
  from none bad good differ show ?thesis by blast
qed

text \<open>
  The theorem at the sample state: a token that does not verify is answered 403, the token
  of \<open>ada\<close> with her four identity properties.
\<close>

theorem user_me_outcomes_witness:
  "second_part ''Bearer forged'' = Some ''forged''
   \<and> jwt_verify sample_lib ''forged'' = None
   \<and> get_user_me sample_lib (Some ''Bearer forged'') sample_server
       = reply 403 ''Invalid or expired token''
   \<and> get_user_me sample_lib (Some ''Bearer jwt.64b7f3a2c1d4e5f6012345aa'') sample_server
       = \<lparr>status = 200,
          body = JObj [(''id'', JVal (VId ''64b7f3a2c1d4e5f6012345aa'')),
                       (''username'', JVal (VStr ''ada'')),
                       (''email'', JVal (VStr ''ada@example.org'')),
                       (''photoUrl'', JVal VNull)]\<rparr>"
  using user_me_outcomes [where l = sample_lib and s = sample_server
      and h = "''Bearer forged''" and token = "''forged''"]
  by (simp add: run_auth)



section \<open>Signing up\<close>

lemma findOne_email_None_iff:
  "usersCollection s = Some users \<Longrightarrow>
   findOne users ''email'' email = None \<longleftrightarrow> records_for_email s email = []"
  by (auto simp: findOne_def records_for_email_def find_None_iff filter_empty_conv)



lemma post_signup_000_state:
  assumes "usersCollection s = Some users"
  shows "snd (post_signup_000 l now newId reqBody s) =
     (case findOne users ''email'' (map_of reqBody ''email'') of
        Some existingUser \<Rightarrow> s
      | None \<Rightarrow>
          (case hash l (map_of reqBody ''password'') of
             Inl e \<Rightarrow> s
           | Inr hashedPassword \<Rightarrow>
               s\<lparr>usersCollection := Some (insertOne users newId
                    [(''username'', bson (map_of reqBody ''username'')),
                     (''email'', bson (map_of reqBody ''email'')),
                     (''photoUrl'', bson (map_of reqBody ''photoUrl'')),
                     (''password'', VStr hashedPassword),
                     (''createdAt'', VDate now)])\<rparr>))"
  using assms
  by (simp add: post_signup_000_def signup_try_000_def the_collection_def Let_def
      split: option.splits sum.splits)

lemma post_signup_000_existing:
  assumes "usersCollection s = Some users"
    and "findOne users ''email'' (map_of reqBody ''email'') = Some d"
  shows "post_signup_000 l now newId reqBody s = (reply 409 ''Email already in use'', s)"
  using assms
  by (simp add: post_signup_000_def signup_try_000_def the_collection_def Let_def)

lemma post_signup_001_state:
  assumes "usersCollection s = Some users"
  shows "snd (post_signup_001 l now newId reqBody s) =
     (case findOne users ''email'' (map_of reqBody ''email'') of
        Some existingUser \<Rightarrow> s
      | None \<Rightarrow>
          (case hash l (map_of reqBody ''password'') of
             Inl e \<Rightarrow> s
           | Inr hashedPassword \<Rightarrow>
               s\<lparr>usersCollection := Some (insertOne users newId
                    [(''username'', bson (map_of reqBody ''username'')),
                     (''email'', bson (map_of reqBody ''email'')),
                     (''photoUrl'', bson (map_of reqBody ''photoUrl'')),
                     (''password'', VStr hashedPassword),
                     (''createdAt'', VDate now)])\<rparr>))"
  using assms
  by (simp add: post_signup_001_def signup_try_001_def the_collection_def Let_def
      split: option.splits sum.splits)

lemma post_signup_001_existing:
  assumes "usersCollection s = Some users"
    and "findOne users ''email'' (map_of reqBody ''email'') = Some d"
  shows "post_signup_001 l now newId reqBody s = (reply 409 ''Email already in use'', s)"
  using assms
  by (simp add: post_signup_001_def signup_try_001_def the_collection_def Let_def)








section \<open>Stores built by signup\<close>

text \<open>
  Sequential signups keep the emails unique, and every record they write has the identity
  fields, so the stores that the signup route builds satisfy the side conditions above.
\<close>

lemma matches_only_own_email:
  "matches (Some (bson email)) (bson q) \<longleftrightarrow> bson q = bson email"
  by (auto simp: matches_def)

lemma signup_000_keeps_emails_unique:
  assumes "\<forall>q. length (records_for_email s q) \<le> 1"
  shows "length (records_for_email (snd (post_signup_000 l now newId reqBody s)) q) \<le> 1"
proof (cases "usersCollection s")
  case None
  then show ?thesis by (simp add: post_signup_000_def records_for_email_def)
next
  case (Some users)
  show ?thesis
  proof (cases "findOne users ''email'' (map_of reqBody ''email'')")
    case (Some d)
    with assms \<open>usersCollection s = Some users\<close> show ?thesis
      by (simp add: post_signup_000_existing)
  next
    case None
    then have none: "filter (\<lambda>d. matches (map_of (snd d) ''email'') (bson (map_of reqBody ''email''))) users = []"
      using findOne_email_None_iff[OF \<open>usersCollection s = Some users\<close>, of "map_of reqBody ''email''"]
        \<open>usersCollection s = Some users\<close>
      by (simp add: records_for_email_def)
    from assms have old: "length (filter (\<lambda>d. matches (map_of (snd d) ''email'') (bson q)) users) \<le> 1"
      using \<open>usersCollection s = Some users\<close> by (simp add: records_for_email_def)
    show ?thesis
    proof (cases "bson q = bson (map_of reqBody ''email'')")
      case True
      with none None old \<open>usersCollection s = Some users\<close> show ?thesis
        by (simp add: post_signup_000_state records_for_email_def insertOne_def
            split: sum.splits)
    next
      case False
      with None old \<open>usersCollection s = Some users\<close> show ?thesis
        by (simp add: post_signup_000_state records_for_email_def insertOne_def
            matches_only_own_email split: sum.splits)
    qed
  qed
qed

lemma signup_000_writes_identity_fields:
  assumes "usersCollection s = Some users"
    and "usersCollection (snd (post_signup_000 l now newId reqBody s)) = Some users'"
    and "d \<in> set users'" and "d \<notin> set users"
  shows "map_of (snd d) ''username'' \<noteq> None \<and> map_of (snd d) ''email'' \<noteq> None
       \<and> map_of (snd d) ''photoUrl'' \<noteq> None"
  using assms
  by (auto simp: post_signup_000_state insertOne_def split: option.splits sum.splits)

lemma signup_001_keeps_emails_unique:
  assumes "\<forall>q. length (records_for_email s q) \<le> 1"
  shows "length (records_for_email (snd (post_signup_001 l now newId reqBody s)) q) \<le> 1"
proof (cases "usersCollection s")
  case None
  then show ?thesis
    by (simp add: post_signup_001_def signup_try_001_def the_collection_def records_for_email_def)
next
  case (Some users)
  show ?thesis
  proof (cases "findOne users ''email'' (map_of reqBody ''email'')")
    case (Some d)
    with assms \<open>usersCollection s = Some users\<close> show ?thesis
      by (simp add: post_signup_001_existing)
  next
    case None
    then have none: "filter (\<lambda>d. matches (map_of (snd d) ''email'') (bson (map_of reqBody ''email''))) users = []"
      using findOne_email_None_iff[OF \<open>usersCollection s = Some users\<close>, of "map_of reqBody ''email''"]
        \<open>usersCollection s = Some users\<close>
      by (simp add: records_for_email_def)
    from assms have old: "length (filter (\<lambda>d. matches (map_of (snd d) ''email'') (bson q)) users) \<le> 1"
      using \<open>usersCollection s = Some users\<close> by (simp add: records_for_email_def)
    show ?thesis
    proof (cases "bson q = bson (map_of reqBody ''email'')")
      case True
      with none None old \<open>usersCollection s = Some users\<close> show ?thesis
        by (simp add: post_signup_001_state records_for_email_def insertOne_def
            split: sum.splits)
    next
      case False
      with None old \<open>usersCollection s = Some users\<close> show ?thesis
        by (simp add: post_signup_001_state records_for_email_def insertOne_def
            matches_only_own_email split: sum.splits)
    qed
  qed
qed

lemma signup_001_writes_identity_fields:
  assumes "usersCollection s = Some users"
    and "usersCollection (snd (post_signup_001 l now newId reqBody s)) = Some users'"
    and "d \<in> set users'" and "d \<notin> set users"
  shows "map_of (snd d) ''username'' \<noteq> None \<and> map_of (snd d) ''email'' \<noteq> None
       \<and> map_of (snd d) ''photoUrl'' \<noteq> None"
  using assms
  by (auto simp: post_signup_001_state insertOne_def split: option.splits sum.splits)

end
